theory Spec2Isabelle
  imports Main
begin

section \<open>The filter controller of src/controllers/filtercontroller.cpp\<close>

text \<open>
  The controller is a single object driven by the event loop.  Its member functions are
  modelled as functions on a record of its data members.  Everything a member function
  does to the outside (signals it emits, engine calls, adapters it allocates and deletes)
  is appended, in program order, to the field \<open>emitted\<close>.  Debug logging is left out.
  C++ \<open>int\<close> is modelled by \<open>int\<close>: the only arithmetic is \<open>rowCount() - 1\<close>.
  A signal that is connected to a slot of the controller runs that slot at once, as a
  direct connection within one thread does.  The accessors, \<open>metadataForService\<close> and
  \<open>setProducer\<close> do not touch the selection and are left out.
\<close>

subsection \<open>Engine services and metadata descriptors\<close>

text \<open>
  An \<open>Mlt::Service\<close> is a wrapper of an engine handle, read by \<open>get_service()\<close>.  A
  pointer to a wrapper is an \<open>option\<close>, \<open>None\<close> being the null pointer.
\<close>

type_synonym mlt_service = nat

datatype Service = Service (get_service: mlt_service)

text \<open>
  The enumerators of \<open>QmlMetadata::PluginType\<close> live in qmlmetadata.h, which is not part
  of the source file; the controller only tests for \<open>Link\<close>.
\<close>

datatype PluginType = Filter | Producer | Transition | Link | FilterSet

record QmlMetadata =
  plugin_type :: PluginType
  name :: string
  mlt_service :: string
  objectName :: string
  isDeprecated :: bool
  keyframes :: bool
  path :: string
  version_property :: "string option"

text \<open>
  The adapter built by \<open>new QmlFilter(*m_mltService, meta)\<close> followed by
  \<open>setIsNew(isNew)\<close>.
\<close>

record QmlFilter =
  service :: Service
  metadata :: QmlMetadata
  isNew :: bool

subsection \<open>Declarations the source file takes from its headers\<close>

text \<open>
  \<open>QmlFilter::NoCurrentFilter\<close> and \<open>QmlFilter::DeselectCurrentFilter\<close> are enumerators
  of qmlfilter.h, and the default of the parameter \<open>isNew\<close> of \<open>setCurrentFilter\<close> is
  given in filtercontroller.h.  Neither header is part of the source file, so the three
  values are parameters of the model.
\<close>

record Declarations =
  NoCurrentFilter :: int
  DeselectCurrentFilter :: int
  isNew_default :: bool

text \<open>
  The attached-filters model is used through three member functions whose code is
  elsewhere: \<open>getMetadata(row)\<close> and \<open>getService(row)\<close>, which return a pointer or
  null, and \<open>rowCount()\<close>.
\<close>

record AttachedFiltersModel =
  getMetadata :: "int \<Rightarrow> QmlMetadata option"
  getService :: "int \<Rightarrow> Service option"
  rowCount :: int

subsection \<open>Effects\<close>

datatype effect =
    CurrentFilterChanged "QmlFilter option" "QmlMetadata option" int
  | StatusChanged string
  | FilterChanged "Service option"
  | Changed QmlFilter
  | ChangedName QmlFilter string
  | AnimateInChanged QmlFilter
  | AnimateOutChanged QmlFilter
  | InChanged QmlFilter int
  | OutChanged QmlFilter int
  | DataChanged int
  | TrackTitleChanged
  | RefreshConsumer
  | Created QmlFilter
  | Destroyed QmlFilter

datatype crash = NullPointerDereference

subsection \<open>The controller\<close>

text \<open>
  \<open>mlt_props\<close> is the property store of the engine, indexed by service handle and
  property name and read as \<open>get_int\<close> reads it: 0 for a property that is absent or
  cleared.
\<close>

record FilterController =
  m_mltService :: "Service option"
  m_metadataModel :: "QmlMetadata list"
  m_attachedModel :: AttachedFiltersModel
  m_currentFilterIndex :: int
  m_currentFilter :: "QmlFilter option"
  mlt_props :: "mlt_service \<Rightarrow> string \<Rightarrow> int"
  emitted :: "effect list"

definition emit :: "effect \<Rightarrow> FilterController \<Rightarrow> FilterController" where
  "emit e s = s\<lparr>emitted := emitted s @ [e]\<rparr>"

definition get_int :: "FilterController \<Rightarrow> Service \<Rightarrow> string \<Rightarrow> int" where
  "get_int s svc k = mlt_props s (get_service svc) k"

definition clear :: "Service \<Rightarrow> string \<Rightarrow> FilterController \<Rightarrow> FilterController" where
  "clear svc k s =
     s\<lparr>mlt_props := (mlt_props s)(get_service svc := (mlt_props s (get_service svc))(k := 0))\<rparr>"

text \<open>
  The constructor: no service, no adapter, the index at \<open>NoCurrentFilter\<close>.  The
  attached model and the engine's properties start as the parameters say.
\<close>

definition FilterController_init ::
  "Declarations \<Rightarrow> AttachedFiltersModel \<Rightarrow> (mlt_service \<Rightarrow> string \<Rightarrow> int) \<Rightarrow> FilterController" where
  "FilterController_init decl am props =
     \<lparr>m_mltService = None, m_metadataModel = [], m_attachedModel = am,
      m_currentFilterIndex = NoCurrentFilter decl, m_currentFilter = None,
      mlt_props = props, emitted = []\<rparr>"

text \<open>
  \<open>QScopedPointer::reset(other)\<close>: nothing when both pointers are null, otherwise the
  new pointer is stored and the old object deleted.  A freshly allocated adapter is never
  the object already held.
\<close>

definition reset_currentFilter :: "QmlFilter option \<Rightarrow> FilterController \<Rightarrow> FilterController" where
  "reset_currentFilter other s =
     (case m_currentFilter s of
        None \<Rightarrow> s\<lparr>m_currentFilter := other\<rparr>
      | Some old \<Rightarrow> emit (Destroyed old) (s\<lparr>m_currentFilter := other\<rparr>))"

text \<open>Lines 184 to 189 of \<open>setCurrentFilter\<close>: the previous service is shown again.\<close>

definition unhide :: "FilterController \<Rightarrow> FilterController" where
  "unhide s =
     (case m_mltService s of
        None \<Rightarrow> s
      | Some svc \<Rightarrow>
          if get_int s svc ''_hide'' \<noteq> 0 then emit RefreshConsumer (clear svc ''_hide'' s)
          else s)"

definition setCurrentFilter ::
  "Declarations \<Rightarrow> int \<Rightarrow> bool \<Rightarrow> FilterController \<Rightarrow> FilterController" where
  "setCurrentFilter decl attachedIndex isNew' s =
     (if attachedIndex = m_currentFilterIndex s then s
      else
        let s1 = unhide (s\<lparr>m_currentFilterIndex := attachedIndex\<rparr>) in
        case getMetadata (m_attachedModel s1) (m_currentFilterIndex s1) of
          None \<Rightarrow>
            reset_currentFilter None
              (emit (CurrentFilterChanged None None (m_currentFilterIndex s1)) s1)
        | Some meta \<Rightarrow>
            let s2 = emit (CurrentFilterChanged None None (NoCurrentFilter decl)) s1;
                s3 = s2\<lparr>m_mltService :=
                          getService (m_attachedModel s2) (m_currentFilterIndex s2)\<rparr>
            in (case m_mltService s3 of
                  None \<Rightarrow> s3
                | Some svc \<Rightarrow>
                    let filter = \<lparr>service = svc, metadata = meta, isNew = isNew'\<rparr>;
                        s4 = emit (Created filter) s3;
                        s5 = emit (CurrentFilterChanged (Some filter) (Some meta)
                                     (m_currentFilterIndex s4)) s4
                    in reset_currentFilter (Some filter) s5))"





definition onServiceInChanged ::
  "int \<Rightarrow> Service option \<Rightarrow> FilterController \<Rightarrow> FilterController" where
  "onServiceInChanged delta svc s =
     (if delta \<noteq> 0 then
        (case m_currentFilter s of
           None \<Rightarrow> s
         | Some f \<Rightarrow>
             if (case svc of
                   None \<Rightarrow> True
                 | Some sv \<Rightarrow> get_service (service f) = get_service sv)
             then emit (InChanged f delta) s
             else s)
      else s)"

definition onServiceOutChanged ::
  "int \<Rightarrow> Service option \<Rightarrow> FilterController \<Rightarrow> FilterController" where
  "onServiceOutChanged delta svc s =
     (if delta \<noteq> 0 then
        (case m_currentFilter s of
           None \<Rightarrow> s
         | Some f \<Rightarrow>
             if (case svc of
                   None \<Rightarrow> True
                 | Some sv \<Rightarrow> get_service (service f) = get_service sv)
             then emit (OutChanged f delta) s
             else s)
      else s)"



text \<open>
  Qt's \<open>qBound(min, val, max)\<close> is \<open>qMax(min, qMin(max, val))\<close>.
\<close>

definition qBound :: "int \<Rightarrow> int \<Rightarrow> int \<Rightarrow> int" where
  "qBound mn val mx = max mn (min mx val)"

definition handleAttachedRowsRemoved ::
  "Declarations \<Rightarrow> int \<Rightarrow> FilterController \<Rightarrow> FilterController" where
  "handleAttachedRowsRemoved decl first s =
     (let s1 = s\<lparr>m_currentFilterIndex := DeselectCurrentFilter decl\<rparr>
      in setCurrentFilter decl (qBound 0 first (rowCount (m_attachedModel s1) - 1))
           (isNew_default decl) s1)"

definition handleAttachedRowsInserted ::
  "Declarations \<Rightarrow> int \<Rightarrow> FilterController \<Rightarrow> FilterController" where
  "handleAttachedRowsInserted decl first s =
     (let s1 = s\<lparr>m_currentFilterIndex := DeselectCurrentFilter decl\<rparr>
      in setCurrentFilter decl (qBound 0 first (rowCount (m_attachedModel s1) - 1)) True s1)"

text \<open>
  \<open>tr("Only one %1 filter is allowed.").arg(meta->name())\<close>, untranslated.  The
  handler reads \<open>meta->name()\<close> without a null check, so a null \<open>meta\<close> is a crash.
\<close>

definition duplicate_message :: "string \<Rightarrow> string" where
  "duplicate_message nm = ''Only one '' @ nm @ '' filter is allowed.''"

definition handleAttachDuplicateFailed ::
  "Declarations \<Rightarrow> int \<Rightarrow> FilterController \<Rightarrow> crash + FilterController" where
  "handleAttachDuplicateFailed decl index s =
     (case getMetadata (m_attachedModel s) index of
        None \<Rightarrow> Inl NullPointerDereference
      | Some meta \<Rightarrow>
          Inr (setCurrentFilter decl index (isNew_default decl)
                 (emit (StatusChanged (duplicate_message (name meta))) s)))"

text \<open>
  \<open>AttachedFiltersModel::remove\<close> is not part of the source file; it is the parameter
  \<open>remove\<close>, which may change the attached model and, through the model's signals, the
  controller.
\<close>

definition removeCurrent ::
  "Declarations \<Rightarrow> (int \<Rightarrow> FilterController \<Rightarrow> FilterController) \<Rightarrow>
     FilterController \<Rightarrow> FilterController" where
  "removeCurrent decl remove s =
     (if m_currentFilterIndex s > NoCurrentFilter decl then remove (m_currentFilterIndex s) s
      else s)"


subsection \<open>Loading the filter metadata\<close>

text \<open>
  What \<open>loadFilterMetadata\<close> asks of the engine's repository: whether
  \<open>get_data(name)\<close> is non-null in the lists of filters, links and producers, and the
  \<open>version\<close> property of a filter's engine metadata (\<open>None\<close> when the metadata is
  missing or invalid or has no such property).  Service names are the Latin-1 strings
  handed to the engine.
\<close>

record Repository =
  filters :: "string \<Rightarrow> bool"
  links :: "string \<Rightarrow> bool"
  producers :: "string \<Rightarrow> bool"
  filter_version :: "string \<Rightarrow> string option"

text \<open>
  Member functions of \<open>QmlMetadata\<close> and of its keyframes object whose code is
  elsewhere; they are parameters.
\<close>

record QmlMetadata_methods =
  isMltVersion :: "QmlMetadata \<Rightarrow> string \<Rightarrow> bool"
  loadSettings :: "QmlMetadata \<Rightarrow> QmlMetadata"
  checkVersion :: "string \<Rightarrow> QmlMetadata \<Rightarrow> QmlMetadata"

text \<open>Lines 73 to 78: the engine's version string, without a leading \<open>lavfi\<close>.\<close>

definition engine_version :: "Repository \<Rightarrow> QmlMetadata \<Rightarrow> string" where
  "engine_version repo meta =
     (case filter_version repo (mlt_service meta) of
        None \<Rightarrow> []
      | Some v \<Rightarrow> if take 5 v = ''lavfi'' then drop 5 v else v)"

text \<open>Lines 105 and 106, with \<open>tr\<close> untranslated.\<close>

definition mark_deprecated :: "QmlMetadata \<Rightarrow> QmlMetadata" where
  "mark_deprecated meta =
     (if isDeprecated meta then meta\<lparr>name := name meta @ '' '' @ ''(DEPRECATED)''\<rparr> else meta)"

text \<open>
  Modelled from the spec: \<open>MetadataModel::add\<close> is not part of the source file.  The
  spec says that loading populates the metadata model; the model here keeps the
  descriptors in the order in which they were added.  The metadata model holds a pointer
  to the descriptor, so what the loop body writes to the descriptor after
  \<open>addMetadata\<close> shows in the model: the descriptor is appended as the loop body leaves
  it.
\<close>

definition addMetadata :: "QmlMetadata \<Rightarrow> FilterController \<Rightarrow> FilterController" where
  "addMetadata meta s = s\<lparr>m_metadataModel := m_metadataModel s @ [meta]\<rparr>"

text \<open>The descriptor as the first branch (lines 85 to 95) and the second (98 to 102) leave it.\<close>

definition added_filter ::
  "Repository \<Rightarrow> QmlMetadata_methods \<Rightarrow> string \<Rightarrow> QmlMetadata \<Rightarrow> QmlMetadata" where
  "added_filter repo ops subdir meta =
     (let version = engine_version repo meta;
          m1 = (loadSettings ops meta)\<lparr>path := subdir\<rparr>
      in if version \<noteq> [] \<and> keyframes m1
         then checkVersion ops version (m1\<lparr>version_property := Some version\<rparr>)
         else m1)"

definition added_link :: "QmlMetadata_methods \<Rightarrow> string \<Rightarrow> QmlMetadata \<Rightarrow> QmlMetadata" where
  "added_link ops subdir meta = (loadSettings ops meta)\<lparr>path := subdir\<rparr>"

text \<open>
  The body of the inner loop for one file \<open>meta*.qml\<close> of the directory \<open>subdir\<close>.
  The file comes with what \<open>component.create()\<close> made of it: a descriptor, or
  \<open>None\<close> when the file could not be instantiated as one (a warning is logged).
\<close>

fun load_file ::
  "Repository \<Rightarrow> QmlMetadata_methods \<Rightarrow> string \<Rightarrow> FilterController \<Rightarrow>
     string \<times> QmlMetadata option \<Rightarrow> FilterController" where
  "load_file repo ops subdir s (fileName, None) = s"
| "load_file repo ops subdir s (fileName, Some meta) =
     (let version = engine_version repo meta in
      if filters repo (mlt_service meta) \<and>
         (''maskGlaxnimate'' \<noteq> objectName meta \<or> producers repo ''glaxnimate'') \<and>
         (version = [] \<or> isMltVersion ops meta version)
      then addMetadata (mark_deprecated (added_filter repo ops subdir meta)) s
      else if plugin_type meta = Link \<and> links repo (mlt_service meta)
      then addMetadata (mark_deprecated (added_link ops subdir meta)) s
      else s)"

fun load_dir ::
  "Repository \<Rightarrow> QmlMetadata_methods \<Rightarrow> FilterController \<Rightarrow>
     string \<times> (string \<times> QmlMetadata option) list \<Rightarrow> FilterController" where
  "load_dir repo ops s (dirName, files) = foldl (load_file repo ops dirName) s files"

definition loadFilterMetadata ::
  "Repository \<Rightarrow> QmlMetadata_methods \<Rightarrow> (string \<times> (string \<times> QmlMetadata option) list) list \<Rightarrow>
     FilterController \<Rightarrow> FilterController" where
  "loadFilterMetadata repo ops dirs s = foldl (load_dir repo ops) s dirs"

text \<open>
  The descriptors found by a scan, each with its directory, in the order of the scan.
\<close>

definition descriptors ::
  "(string \<times> (string \<times> QmlMetadata option) list) list \<Rightarrow> (string \<times> QmlMetadata) list" where
  "descriptors dirs =
     concat (map (\<lambda>(dirName, files). map (Pair dirName) (List.map_filter snd files)) dirs)"

text \<open>The descriptor as the metadata model shows it once it has been added.\<close>

definition stored ::
  "Repository \<Rightarrow> QmlMetadata_methods \<Rightarrow> string \<times> QmlMetadata \<Rightarrow> QmlMetadata" where
  "stored repo ops dm =
     (case dm of (subdir, meta) \<Rightarrow>
        if filters repo (mlt_service meta) \<and>
           (''maskGlaxnimate'' \<noteq> objectName meta \<or> producers repo ''glaxnimate'') \<and>
           (engine_version repo meta = [] \<or> isMltVersion ops meta (engine_version repo meta))
        then mark_deprecated (added_filter repo ops subdir meta)
        else mark_deprecated (added_link ops subdir meta))"

text \<open>
  The condition of acceptance in the words of the specification: the filter registry has
  the service and the minimum version, if any, is satisfied; or the descriptor is of link
  type and the link registry has the service.
\<close>

definition spec_accepts :: "Repository \<Rightarrow> QmlMetadata_methods \<Rightarrow> QmlMetadata \<Rightarrow> bool" where
  "spec_accepts repo ops meta \<longleftrightarrow>
     filters repo (mlt_service meta) \<and>
       (engine_version repo meta = [] \<or> isMltVersion ops meta (engine_version repo meta)) \<or>
     plugin_type meta = Link \<and> links repo (mlt_service meta)"

subsection \<open>Operations and reachable states\<close>

text \<open>
  The adapters alive after a sequence of effects: those created and not yet destroyed.
\<close>

fun live_change :: "effect \<Rightarrow> int" where
  "live_change (Created f) = 1"
| "live_change (Destroyed f) = - 1"
| "live_change e = 0"

definition live_adapters :: "effect list \<Rightarrow> int" where
  "live_adapters es = sum_list (map live_change es)"





section \<open>Concrete controllers\<close>

text \<open>
  The enumerators as Shotcut declares them, one descriptor, and three attached models:
  one row with metadata and a service, one row with metadata whose service lookup gives
  null, and no row at all.
\<close>

definition decl0 :: Declarations where
  "decl0 = \<lparr>NoCurrentFilter = - 1, DeselectCurrentFilter = - 2, isNew_default = False\<rparr>"

definition meta_blur :: QmlMetadata where
  "meta_blur =
     \<lparr>plugin_type = Filter, name = ''Blur'', mlt_service = ''boxblur'',
      objectName = ''blur'', isDeprecated = False, keyframes = True, path = ''blur'',
      version_property = None\<rparr>"

definition am_one :: AttachedFiltersModel where
  "am_one =
     \<lparr>getMetadata = (\<lambda>row. if row = 0 then Some meta_blur else None),
      getService = (\<lambda>row. if row = 0 then Some (Service 7) else None),
      rowCount = 1\<rparr>"

definition am_no_service :: AttachedFiltersModel where
  "am_no_service =
     \<lparr>getMetadata = (\<lambda>row. if row = 0 then Some meta_blur else None),
      getService = (\<lambda>row. None),
      rowCount = 1\<rparr>"

definition meta_glow :: QmlMetadata where
  "meta_glow =
     \<lparr>plugin_type = Filter, name = ''Glow'', mlt_service = ''frei0r.glow'',
      objectName = ''glow'', isDeprecated = False, keyframes = True, path = ''glow'',
      version_property = None\<rparr>"

definition am_two :: AttachedFiltersModel where
  "am_two =
     \<lparr>getMetadata = (\<lambda>row. if row = 0 then Some meta_blur
                           else if row = 1 then Some meta_glow else None),
      getService = (\<lambda>row. if row = 0 then Some (Service 7)
                          else if row = 1 then Some (Service 9) else None),
      rowCount = 2\<rparr>"

definition am_second_no_service :: AttachedFiltersModel where
  "am_second_no_service =
     \<lparr>getMetadata = (\<lambda>row. if row = 0 then Some meta_blur
                           else if row = 1 then Some meta_glow else None),
      getService = (\<lambda>row. if row = 0 then Some (Service 7) else None),
      rowCount = 2\<rparr>"

definition am_empty :: AttachedFiltersModel where
  "am_empty = \<lparr>getMetadata = (\<lambda>row. None), getService = (\<lambda>row. None), rowCount = 0\<rparr>"

definition props0 :: "mlt_service \<Rightarrow> string \<Rightarrow> int" where
  "props0 = (\<lambda>h k. 0)"

definition blur_filter :: "bool \<Rightarrow> QmlFilter" where
  "blur_filter b = \<lparr>service = Service 7, metadata = meta_blur, isNew = b\<rparr>"

text \<open>A fresh controller, and the controller after the row 0 was inserted.\<close>

definition s_fresh :: FilterController where
  "s_fresh = FilterController_init decl0 am_one props0"

definition s_selected :: FilterController where
  "s_selected =
     \<lparr>m_mltService = Some (Service 7), m_metadataModel = [], m_attachedModel = am_one,
      m_currentFilterIndex = 0, m_currentFilter = Some (blur_filter True),
      mlt_props = props0,
      emitted = [CurrentFilterChanged None None (- 1), Created (blur_filter True),
                 CurrentFilterChanged (Some (blur_filter True)) (Some meta_blur) 0]\<rparr>"

text \<open>
  A repository, the absent member functions, and a scan of four directories: a filter
  the engine has, a file that is no descriptor, the Glaxnimate mask with no
  \<open>glaxnimate\<close> producer in the engine, a filter whose engine version is refused by
  \<open>isMltVersion\<close>, and a deprecated link the engine has.
\<close>

definition repo0 :: Repository where
  "repo0 =
     \<lparr>filters = (\<lambda>n. n = ''boxblur'' \<or> n = ''mask_start'' \<or> n = ''avfilter.gblur''),
      links = (\<lambda>n. n = ''timeremap''),
      producers = (\<lambda>n. n = ''color''),
      filter_version = (\<lambda>n. if n = ''avfilter.gblur'' then Some ''lavfi9.3'' else None)\<rparr>"

definition ops0 :: QmlMetadata_methods where
  "ops0 =
     \<lparr>isMltVersion = (\<lambda>m v. v = ''7.1''),
      loadSettings = (\<lambda>m. m),
      checkVersion = (\<lambda>v m. m)\<rparr>"

definition meta_mask :: QmlMetadata where
  "meta_mask =
     \<lparr>plugin_type = Filter, name = ''Mask: Draw'', mlt_service = ''mask_start'',
      objectName = ''maskGlaxnimate'', isDeprecated = False, keyframes = False, path = [],
      version_property = None\<rparr>"

definition meta_remap :: QmlMetadata where
  "meta_remap =
     \<lparr>plugin_type = Link, name = ''Time Remap'', mlt_service = ''timeremap'',
      objectName = ''timeRemap'', isDeprecated = True, keyframes = True, path = [],
      version_property = None\<rparr>"

definition meta_gblur :: QmlMetadata where
  "meta_gblur =
     \<lparr>plugin_type = Filter, name = ''Blur: Gaussian'', mlt_service = ''avfilter.gblur'',
      objectName = ''gblur'', isDeprecated = False, keyframes = True, path = [],
      version_property = None\<rparr>"

definition scan0 :: "(string \<times> (string \<times> QmlMetadata option) list) list" where
  "scan0 =
     [(''blur'', [(''meta.qml'', Some meta_blur), (''meta_broken.qml'', None)]),
      (''mask'', [(''meta_glaxnimate.qml'', Some meta_mask)]),
      (''gblur'', [(''meta.qml'', Some meta_gblur)]),
      (''remap'', [(''meta.qml'', Some meta_remap)])]"

section \<open>Properties\<close>

subsection \<open>What the building blocks leave alone\<close>

lemma emit_fields [simp]:
  "m_mltService (emit e s) = m_mltService s"
  "m_metadataModel (emit e s) = m_metadataModel s"
  "m_attachedModel (emit e s) = m_attachedModel s"
  "m_currentFilterIndex (emit e s) = m_currentFilterIndex s"
  "m_currentFilter (emit e s) = m_currentFilter s"
  "mlt_props (emit e s) = mlt_props s"
  "emitted (emit e s) = emitted s @ [e]"
  by (simp_all add: emit_def)

lemma clear_fields [simp]:
  "m_mltService (clear svc k s) = m_mltService s"
  "m_metadataModel (clear svc k s) = m_metadataModel s"
  "m_attachedModel (clear svc k s) = m_attachedModel s"
  "m_currentFilterIndex (clear svc k s) = m_currentFilterIndex s"
  "m_currentFilter (clear svc k s) = m_currentFilter s"
  "emitted (clear svc k s) = emitted s"
  by (simp_all add: clear_def)

lemma unhide_fields [simp]:
  "m_mltService (unhide s) = m_mltService s"
  "m_metadataModel (unhide s) = m_metadataModel s"
  "m_attachedModel (unhide s) = m_attachedModel s"
  "m_currentFilterIndex (unhide s) = m_currentFilterIndex s"
  "m_currentFilter (unhide s) = m_currentFilter s"
  by (simp_all add: unhide_def split: option.split)

lemma reset_currentFilter_fields [simp]:
  "m_mltService (reset_currentFilter other s) = m_mltService s"
  "m_metadataModel (reset_currentFilter other s) = m_metadataModel s"
  "m_attachedModel (reset_currentFilter other s) = m_attachedModel s"
  "m_currentFilterIndex (reset_currentFilter other s) = m_currentFilterIndex s"
  "m_currentFilter (reset_currentFilter other s) = other"
  "mlt_props (reset_currentFilter other s) = mlt_props s"
  by (simp_all add: reset_currentFilter_def split: option.split)

lemma setCurrentFilter_index:
  "m_currentFilterIndex (setCurrentFilter decl k b s) = k"
  by (simp add: setCurrentFilter_def Let_def split: option.split)

lemma setCurrentFilter_attachedModel:
  "m_attachedModel (setCurrentFilter decl k b s) = m_attachedModel s"
  by (simp add: setCurrentFilter_def Let_def split: option.split)

lemma setCurrentFilter_metadataModel:
  "m_metadataModel (setCurrentFilter decl k b s) = m_metadataModel s"
  by (simp add: setCurrentFilter_def Let_def split: option.split)

subsection \<open>Selection\<close>

text \<open>
  C4.  \<open>setCurrentFilter\<close> called with the index that is already current returns
  the controller as it was: the selection index, the adapter, the bound service and the
  list of emitted notifications are all unchanged.
\<close>

theorem setCurrentFilter_same_index:
  "attachedIndex = m_currentFilterIndex s \<Longrightarrow> setCurrentFilter decl attachedIndex b s = s"
  by (simp add: setCurrentFilter_def)

theorem setCurrentFilter_same_index_witness:
  "(0::int) = m_currentFilterIndex s_selected \<and>
   setCurrentFilter decl0 0 False s_selected = s_selected"
proof -
  have h: "(0::int) = m_currentFilterIndex s_selected"
    by (simp add: s_selected_def)
  from h setCurrentFilter_same_index [OF h, of decl0 False] show ?thesis by simp
qed

text \<open>
  C8.  With no current selection, that is with the current filter index at or below
  \<open>NoCurrentFilter\<close>, \<open>removeCurrent\<close> returns the controller as it was, whatever
  the attached model's \<open>remove\<close> would do: the removal is not requested and the
  attached model is unchanged.
\<close>

theorem removeCurrent_without_selection:
  "m_currentFilterIndex s \<le> NoCurrentFilter decl \<Longrightarrow> removeCurrent decl remove s = s"
  by (simp add: removeCurrent_def)

theorem removeCurrent_without_selection_witness:
  "m_currentFilterIndex s_fresh \<le> NoCurrentFilter decl0 \<and>
   removeCurrent decl0 (\<lambda>row s. handleAttachedRowsRemoved decl0 row (s\<lparr>m_attachedModel := am_empty\<rparr>))
     s_fresh = s_fresh"
proof -
  have h: "m_currentFilterIndex s_fresh \<le> NoCurrentFilter decl0"
    by (simp add: s_fresh_def FilterController_init_def)
  from h removeCurrent_without_selection [OF h] show ?thesis by simp
qed

text \<open>
  C2, as the code has it.  After the handler of a row removal or of a row insertion at
  position \<open>first\<close>, the current filter index is \<open>first\<close> clamped by
  \<open>qBound(0, first, rowCount - 1)\<close>, and the attached model is the one the handler
  found.  So the index lies within \<open>[0, rowCount - 1]\<close> when the attached list has at
  least one row, and it is 0 when the list is empty.
\<close>

theorem rows_changed_index_bounded:
  fixes s :: FilterController and first :: int and decl :: Declarations
  defines "n \<equiv> rowCount (m_attachedModel s)"
  defines "r \<equiv> handleAttachedRowsRemoved decl first s"
  defines "i \<equiv> handleAttachedRowsInserted decl first s"
  shows "m_attachedModel r = m_attachedModel s \<and> m_attachedModel i = m_attachedModel s \<and>
         m_currentFilterIndex r = max 0 (min (n - 1) first) \<and>
         m_currentFilterIndex i = max 0 (min (n - 1) first) \<and>
         (1 \<le> n \<longrightarrow> 0 \<le> m_currentFilterIndex r \<and> m_currentFilterIndex r \<le> n - 1 \<and>
                   0 \<le> m_currentFilterIndex i \<and> m_currentFilterIndex i \<le> n - 1) \<and>
         (n \<le> 0 \<longrightarrow> m_currentFilterIndex r = 0 \<and> m_currentFilterIndex i = 0)"
  unfolding n_def r_def i_def
  by (auto simp add: handleAttachedRowsRemoved_def handleAttachedRowsInserted_def Let_def
      setCurrentFilter_index setCurrentFilter_attachedModel qBound_def)

theorem rows_changed_index_bounded_witness:
  "1 \<le> rowCount (m_attachedModel s_selected) \<and>
   m_currentFilterIndex (handleAttachedRowsRemoved decl0 5 s_selected) = 0 \<and>
   m_currentFilterIndex (handleAttachedRowsInserted decl0 5 s_selected) = 0 \<and>
   rowCount (m_attachedModel (s_selected\<lparr>m_attachedModel := am_empty\<rparr>)) \<le> 0 \<and>
   m_currentFilterIndex
     (handleAttachedRowsRemoved decl0 0 (s_selected\<lparr>m_attachedModel := am_empty\<rparr>)) = 0"
  using rows_changed_index_bounded [of decl0 5 s_selected]
    rows_changed_index_bounded [of decl0 0 "s_selected\<lparr>m_attachedModel := am_empty\<rparr>"]
  by (simp add: s_selected_def am_one_def am_empty_def)

text \<open>
  C2 as stated fails on the empty list.  When the only row has been removed the handler
  selects index 0, and no index lies within \<open>[0, rowCount - 1] = [0, - 1]\<close>.
\<close>

theorem rows_removed_empty_list_counterexample:
  "rowCount (m_attachedModel
     (handleAttachedRowsRemoved decl0 0 (s_selected\<lparr>m_attachedModel := am_empty\<rparr>))) = 0 \<and>
   m_currentFilterIndex
     (handleAttachedRowsRemoved decl0 0 (s_selected\<lparr>m_attachedModel := am_empty\<rparr>)) = 0 \<and>
   \<not> (0 \<le> m_currentFilterIndex
            (handleAttachedRowsRemoved decl0 0 (s_selected\<lparr>m_attachedModel := am_empty\<rparr>)) \<and>
       m_currentFilterIndex
            (handleAttachedRowsRemoved decl0 0 (s_selected\<lparr>m_attachedModel := am_empty\<rparr>))
         \<le> rowCount (m_attachedModel
              (handleAttachedRowsRemoved decl0 0 (s_selected\<lparr>m_attachedModel := am_empty\<rparr>))) - 1)"
  by (simp add: handleAttachedRowsRemoved_def Let_def setCurrentFilter_index
      setCurrentFilter_attachedModel qBound_def am_empty_def)

text \<open>
  C3, as the code has it.  For a requested index different from the current one whose
  attached entry has metadata, \<open>setCurrentFilter\<close> first notifies the listeners with
  the null state (after a refresh of the consumer when the previous service was hidden).
  When the entry's service is null it stops there, keeping the previous adapter.
  Otherwise it builds the new adapter on the entry's service and metadata, notifies the
  listeners with the new adapter, its metadata and the new index, and only then destroys
  the previous adapter, if there is one, and keeps the new one.
\<close>

theorem setCurrentFilter_notifications:
  fixes s :: FilterController and decl :: Declarations and attachedIndex :: int and b :: bool
  defines "s' \<equiv> setCurrentFilter decl attachedIndex b s"
  defines "first_part \<equiv>
     emitted s @
     (case m_mltService s of
        None \<Rightarrow> []
      | Some old_svc \<Rightarrow>
          if mlt_props s (get_service old_svc) ''_hide'' \<noteq> 0 then [RefreshConsumer] else []) @
     [CurrentFilterChanged None None (NoCurrentFilter decl)]"
  assumes "attachedIndex \<noteq> m_currentFilterIndex s"
    and "getMetadata (m_attachedModel s) attachedIndex = Some meta"
  shows "(getService (m_attachedModel s) attachedIndex = None \<longrightarrow>
            emitted s' = first_part \<and> m_currentFilter s' = m_currentFilter s \<and>
            m_mltService s' = None \<and> m_currentFilterIndex s' = attachedIndex) \<and>
         (\<forall>svc. getService (m_attachedModel s) attachedIndex = Some svc \<longrightarrow>
            emitted s' =
              first_part @
              [Created \<lparr>service = svc, metadata = meta, isNew = b\<rparr>,
               CurrentFilterChanged (Some \<lparr>service = svc, metadata = meta, isNew = b\<rparr>)
                 (Some meta) attachedIndex] @
              (case m_currentFilter s of None \<Rightarrow> [] | Some old \<Rightarrow> [Destroyed old]) \<and>
            m_currentFilter s' = Some \<lparr>service = svc, metadata = meta, isNew = b\<rparr> \<and>
            m_mltService s' = Some svc \<and> m_currentFilterIndex s' = attachedIndex)"
  using assms(3,4) unfolding s'_def first_part_def
  by (auto simp add: setCurrentFilter_def Let_def unhide_def get_int_def
      reset_currentFilter_def emit_def clear_def split: option.splits)

theorem setCurrentFilter_notifications_witness:
  "(1::int) \<noteq> m_currentFilterIndex (s_selected\<lparr>m_attachedModel := am_two\<rparr>) \<and>
   getMetadata am_two 1 = Some meta_glow \<and> getService am_two 1 = Some (Service 9) \<and>
   emitted (setCurrentFilter decl0 1 False (s_selected\<lparr>m_attachedModel := am_two\<rparr>)) =
     emitted s_selected @
     [CurrentFilterChanged None None (- 1),
      Created \<lparr>service = Service 9, metadata = meta_glow, isNew = False\<rparr>,
      CurrentFilterChanged (Some \<lparr>service = Service 9, metadata = meta_glow, isNew = False\<rparr>)
        (Some meta_glow) 1,
      Destroyed (blur_filter True)] \<and>
   (0::int) \<noteq> m_currentFilterIndex (FilterController_init decl0 am_no_service props0) \<and>
   getMetadata am_no_service 0 = Some meta_blur \<and> getService am_no_service 0 = None \<and>
   emitted (setCurrentFilter decl0 0 False (FilterController_init decl0 am_no_service props0)) =
     [CurrentFilterChanged None None (- 1)]"
proof -
  have a: "(1::int) \<noteq> m_currentFilterIndex (s_selected\<lparr>m_attachedModel := am_two\<rparr>)"
    by (simp add: s_selected_def)
  have b: "getMetadata (m_attachedModel (s_selected\<lparr>m_attachedModel := am_two\<rparr>)) 1 =
             Some meta_glow"
    by (simp add: am_two_def)
  have c: "(0::int) \<noteq> m_currentFilterIndex (FilterController_init decl0 am_no_service props0)"
    by (simp add: FilterController_init_def decl0_def)
  have d: "getMetadata (m_attachedModel (FilterController_init decl0 am_no_service props0)) 0 =
             Some meta_blur"
    by (simp add: FilterController_init_def am_no_service_def)
  from a b c d setCurrentFilter_notifications [OF a b, of decl0 False]
    setCurrentFilter_notifications [OF c d, of decl0 False]
  show ?thesis
    by (simp add: s_selected_def am_two_def am_no_service_def FilterController_init_def
        decl0_def props0_def)
qed

text \<open>
  C3 as stated fails in two ways.  On an entry that has metadata but whose service
  lookup gives null, the null state is notified and nothing follows: there is no second
  notification.  On an entry with a service, the previous adapter is destroyed last,
  after the second notification, not before the new adapter is built.
\<close>

theorem setCurrentFilter_notifications_counterexample:
  "(0::int) \<noteq> m_currentFilterIndex (FilterController_init decl0 am_no_service props0) \<and>
   getMetadata am_no_service 0 = Some meta_blur \<and>
   emitted (setCurrentFilter decl0 0 False (FilterController_init decl0 am_no_service props0)) =
     [CurrentFilterChanged None None (- 1)] \<and>
   (1::int) \<noteq> m_currentFilterIndex (s_selected\<lparr>m_attachedModel := am_two\<rparr>) \<and>
   getMetadata am_two 1 = Some meta_glow \<and>
   drop (length (emitted s_selected))
     (emitted (setCurrentFilter decl0 1 False (s_selected\<lparr>m_attachedModel := am_two\<rparr>))) =
     [CurrentFilterChanged None None (- 1),
      Created \<lparr>service = Service 9, metadata = meta_glow, isNew = False\<rparr>,
      CurrentFilterChanged (Some \<lparr>service = Service 9, metadata = meta_glow, isNew = False\<rparr>)
        (Some meta_glow) 1,
      Destroyed (blur_filter True)]"
  by (simp add: setCurrentFilter_def Let_def unhide_def get_int_def reset_currentFilter_def
      emit_def s_selected_def am_two_def am_no_service_def FilterController_init_def
      decl0_def props0_def)

subsection \<open>Duplicate attach\<close>

lemma setCurrentFilter_emitted:
  "\<exists>es. emitted (setCurrentFilter decl k b s) = emitted s @ es"
  by (auto simp add: setCurrentFilter_def Let_def unhide_def reset_currentFilter_def
      emit_def clear_def split: option.splits)

text \<open>
  C7.  A duplicate-attach report for index \<open>index\<close>, the index of the attached filter
  the attempt collided with, whose metadata the handler reads for its name: the handler
  returns normally, the first thing it emits is the status message
  \<open>Only one <name> filter is allowed.\<close>, and the attached model is unchanged.
\<close>

theorem duplicate_attach_reports_status:
  assumes "getMetadata (m_attachedModel s) index = Some meta"
  shows "\<exists>s'. handleAttachDuplicateFailed decl index s = Inr s' \<and>
              m_attachedModel s' = m_attachedModel s \<and>
              take (Suc (length (emitted s))) (emitted s') =
                emitted s @ [StatusChanged (''Only one '' @ name meta @ '' filter is allowed.'')]"
proof -
  let ?t = "emit (StatusChanged (duplicate_message (name meta))) s"
  let ?s' = "setCurrentFilter decl index (isNew_default decl) ?t"
  obtain es where es: "emitted ?s' = emitted ?t @ es"
    using setCurrentFilter_emitted by blast
  have "handleAttachDuplicateFailed decl index s = Inr ?s'"
    using assms by (simp add: handleAttachDuplicateFailed_def)
  moreover have "m_attachedModel ?s' = m_attachedModel s"
    by (simp add: setCurrentFilter_attachedModel)
  moreover have "take (Suc (length (emitted s))) (emitted ?s') =
      emitted s @ [StatusChanged (duplicate_message (name meta))]"
    by (simp add: es)
  ultimately show ?thesis by (simp add: duplicate_message_def)
qed

theorem duplicate_attach_reports_status_witness:
  "getMetadata (m_attachedModel s_selected) 0 = Some meta_blur \<and>
   (\<exists>s'. handleAttachDuplicateFailed decl0 0 s_selected = Inr s' \<and>
         m_attachedModel s' = am_one \<and>
         take (Suc (length (emitted s_selected))) (emitted s') =
           emitted s_selected @ [StatusChanged ''Only one Blur filter is allowed.''])"
proof -
  have h: "getMetadata (m_attachedModel s_selected) 0 = Some meta_blur"
    by (simp add: s_selected_def am_one_def)
  from h duplicate_attach_reports_status [OF h, of decl0] show ?thesis
    by (simp add: s_selected_def meta_blur_def)
qed

text \<open>
  C10, as the code has it.  A duplicate-attach report for an index \<open>index\<close> that is
  not the current one (the index of an attached filter, whose metadata the handler
  reads) makes \<open>index\<close> the current filter index.  When the entry has a service, the
  attached filter becomes the current filter: the new adapter is bound to that service
  and to the entry's metadata.  When the entry's service is null, the previous adapter
  is kept, the bound service becomes null, and the last notification is the one with the
  null state.
\<close>

theorem duplicate_attach_selects_index:
  assumes "getMetadata (m_attachedModel s) index = Some meta"
    and "index \<noteq> m_currentFilterIndex s"
  shows "\<exists>s'. handleAttachDuplicateFailed decl index s = Inr s' \<and>
              m_currentFilterIndex s' = index \<and>
              (\<forall>svc. getService (m_attachedModel s) index = Some svc \<longrightarrow>
                 m_mltService s' = Some svc \<and>
                 m_currentFilter s' =
                   Some \<lparr>service = svc, metadata = meta, isNew = isNew_default decl\<rparr>) \<and>
              (getService (m_attachedModel s) index = None \<longrightarrow>
                 m_mltService s' = None \<and> m_currentFilter s' = m_currentFilter s \<and>
                 last (emitted s') = CurrentFilterChanged None None (NoCurrentFilter decl))"
  using assms
  by (auto simp add: handleAttachDuplicateFailed_def setCurrentFilter_def Let_def
      split: option.splits)

theorem duplicate_attach_selects_index_witness:
  "getMetadata (m_attachedModel (s_selected\<lparr>m_attachedModel := am_two\<rparr>)) 1 = Some meta_glow \<and>
   (1::int) \<noteq> m_currentFilterIndex (s_selected\<lparr>m_attachedModel := am_two\<rparr>) \<and>
   getService am_two 1 = Some (Service 9) \<and>
   (\<exists>s'. handleAttachDuplicateFailed decl0 1 (s_selected\<lparr>m_attachedModel := am_two\<rparr>) = Inr s' \<and>
         m_currentFilterIndex s' = 1 \<and> m_mltService s' = Some (Service 9) \<and>
         m_currentFilter s' =
           Some \<lparr>service = Service 9, metadata = meta_glow, isNew = False\<rparr>) \<and>
   getMetadata (m_attachedModel (s_selected\<lparr>m_attachedModel := am_second_no_service\<rparr>)) 1 =
     Some meta_glow \<and>
   (1::int) \<noteq> m_currentFilterIndex (s_selected\<lparr>m_attachedModel := am_second_no_service\<rparr>) \<and>
   getService am_second_no_service 1 = None \<and>
   (\<exists>s'. handleAttachDuplicateFailed decl0 1
           (s_selected\<lparr>m_attachedModel := am_second_no_service\<rparr>) = Inr s' \<and>
         m_currentFilterIndex s' = 1 \<and> m_mltService s' = None \<and>
         m_currentFilter s' = Some (blur_filter True) \<and>
         last (emitted s') = CurrentFilterChanged None None (- 1))"
proof -
  have a: "getMetadata (m_attachedModel (s_selected\<lparr>m_attachedModel := am_two\<rparr>)) 1 =
             Some meta_glow"
    by (simp add: am_two_def)
  have b: "(1::int) \<noteq> m_currentFilterIndex (s_selected\<lparr>m_attachedModel := am_two\<rparr>)"
    by (simp add: s_selected_def)
  have c: "getMetadata (m_attachedModel (s_selected\<lparr>m_attachedModel := am_second_no_service\<rparr>)) 1 =
             Some meta_glow"
    by (simp add: am_second_no_service_def)
  have d: "(1::int) \<noteq>
             m_currentFilterIndex (s_selected\<lparr>m_attachedModel := am_second_no_service\<rparr>)"
    by (simp add: s_selected_def)
  have e: "m_currentFilter (s_selected\<lparr>m_attachedModel := am_second_no_service\<rparr>) =
             Some (blur_filter True)"
    by (simp add: s_selected_def)
  from a b duplicate_attach_selects_index [OF a b, of decl0] have first:
    "\<exists>s'. handleAttachDuplicateFailed decl0 1 (s_selected\<lparr>m_attachedModel := am_two\<rparr>) = Inr s' \<and>
          m_currentFilterIndex s' = 1 \<and> m_mltService s' = Some (Service 9) \<and>
          m_currentFilter s' =
            Some \<lparr>service = Service 9, metadata = meta_glow, isNew = False\<rparr>"
    by (simp add: am_two_def decl0_def)
  from c d e duplicate_attach_selects_index [OF c d, of decl0] have second:
    "\<exists>s'. handleAttachDuplicateFailed decl0 1
            (s_selected\<lparr>m_attachedModel := am_second_no_service\<rparr>) = Inr s' \<and>
          m_currentFilterIndex s' = 1 \<and> m_mltService s' = None \<and>
          m_currentFilter s' = Some (blur_filter True) \<and>
          last (emitted s') = CurrentFilterChanged None None (- 1)"
    by (simp add: am_second_no_service_def decl0_def)
  have f: "getService am_two 1 = Some (Service 9)" "getService am_second_no_service 1 = None"
    by (simp_all add: am_two_def am_second_no_service_def)
  from a b c d f first second show ?thesis by blast
qed

text \<open>
  C10 as stated fails on an attached entry whose service is null.  Row 0 (Blur) is
  current and a duplicate of row 1 (Glow), which has metadata and no service, is
  reported.  The handler returns with the index at 1, but the Glow filter has not become
  the current filter: the controller still holds the adapter of Blur, its bound service
  is null, and the last thing the listeners were told is the null state.
\<close>

theorem duplicate_attach_null_service_counterexample:
  "getMetadata (m_attachedModel (s_selected\<lparr>m_attachedModel := am_second_no_service\<rparr>)) 1 =
     Some meta_glow \<and>
   (1::int) \<noteq> m_currentFilterIndex (s_selected\<lparr>m_attachedModel := am_second_no_service\<rparr>) \<and>
   map_sum id m_currentFilterIndex
     (handleAttachDuplicateFailed decl0 1
        (s_selected\<lparr>m_attachedModel := am_second_no_service\<rparr>)) = Inr 1 \<and>
   map_sum id m_currentFilter
     (handleAttachDuplicateFailed decl0 1
        (s_selected\<lparr>m_attachedModel := am_second_no_service\<rparr>)) =
     Inr (Some \<lparr>service = Service 7, metadata = meta_blur, isNew = True\<rparr>) \<and>
   meta_blur \<noteq> meta_glow \<and>
   map_sum id m_mltService
     (handleAttachDuplicateFailed decl0 1
        (s_selected\<lparr>m_attachedModel := am_second_no_service\<rparr>)) = Inr None \<and>
   map_sum id (\<lambda>s'. drop (length (emitted s_selected)) (emitted s'))
     (handleAttachDuplicateFailed decl0 1
        (s_selected\<lparr>m_attachedModel := am_second_no_service\<rparr>)) =
     Inr [StatusChanged ''Only one Glow filter is allowed.'',
          CurrentFilterChanged None None (- 1)]"
  by (simp add: handleAttachDuplicateFailed_def setCurrentFilter_def Let_def unhide_def
      get_int_def emit_def duplicate_message_def s_selected_def am_second_no_service_def
      decl0_def props0_def blur_filter_def meta_blur_def meta_glow_def)

subsection \<open>Relay of in and out point changes\<close>

text \<open>
  C5.  An in-point or out-point change whose originating service is not null and is not
  the service the current adapter is bound to is not forwarded: both slots return the
  controller as it was, with no \<open>inChanged\<close> or \<open>outChanged\<close> emitted.
\<close>

theorem foreign_service_not_forwarded:
  assumes "case m_currentFilter s of
             None \<Rightarrow> True
           | Some f \<Rightarrow> get_service (service f) \<noteq> get_service sv"
  shows "onServiceInChanged delta (Some sv) s = s \<and> onServiceOutChanged delta (Some sv) s = s"
  using assms
  by (simp add: onServiceInChanged_def onServiceOutChanged_def split: option.splits)

theorem foreign_service_not_forwarded_witness:
  "m_currentFilter s_selected = Some (blur_filter True) \<and>
   get_service (service (blur_filter True)) \<noteq> get_service (Service 8) \<and>
   onServiceInChanged 5 (Some (Service 8)) s_selected = s_selected \<and>
   onServiceOutChanged 5 (Some (Service 8)) s_selected = s_selected"
proof -
  have h: "case m_currentFilter s_selected of
             None \<Rightarrow> True
           | Some f \<Rightarrow> get_service (service f) \<noteq> get_service (Service 8)"
    by (simp add: s_selected_def blur_filter_def)
  from foreign_service_not_forwarded [OF h, of 5] show ?thesis
    by (simp add: s_selected_def blur_filter_def)
qed

text \<open>
  C9.  An in-point or out-point change with a zero delta is never forwarded to the
  adapter, whatever the originating service and the state of the controller: both slots
  return the state as it was, with nothing emitted.
\<close>

theorem zero_delta_not_forwarded:
  "onServiceInChanged 0 svc s = s \<and> onServiceOutChanged 0 svc s = s"
  by (simp add: onServiceInChanged_def onServiceOutChanged_def split: option.split)

subsection \<open>Loading the filter metadata\<close>

lemma addMetadata_model [simp]:
  "m_metadataModel (addMetadata meta s) = m_metadataModel s @ [meta]"
  by (simp add: addMetadata_def)

lemma load_file_model:
  "m_metadataModel (load_file repo ops subdir s (fileName, created)) =
     m_metadataModel s @
     map (stored repo ops)
       (filter (\<lambda>(d, m).
            filters repo (mlt_service m) \<and>
              (objectName m = ''maskGlaxnimate'' \<longrightarrow> producers repo ''glaxnimate'') \<and>
              (engine_version repo m = [] \<or> isMltVersion ops m (engine_version repo m)) \<or>
            plugin_type m = Link \<and> links repo (mlt_service m))
          (map (Pair subdir) (List.map_filter snd [(fileName, created)])))"
  by (cases created) (auto simp add: List.map_filter_simps stored_def Let_def)

lemma load_files_model:
  "m_metadataModel (foldl (load_file repo ops subdir) s files) =
     m_metadataModel s @
     map (stored repo ops)
       (filter (\<lambda>(d, m).
            filters repo (mlt_service m) \<and>
              (objectName m = ''maskGlaxnimate'' \<longrightarrow> producers repo ''glaxnimate'') \<and>
              (engine_version repo m = [] \<or> isMltVersion ops m (engine_version repo m)) \<or>
            plugin_type m = Link \<and> links repo (mlt_service m))
          (map (Pair subdir) (List.map_filter snd files)))"
proof (induction files arbitrary: s)
  case Nil
  show ?case by (simp add: List.map_filter_simps)
next
  case (Cons f files)
  obtain fileName created where f: "f = (fileName, created)" by (cases f)
  show ?case
    unfolding foldl_Cons Cons.IH f load_file_model
    by (cases created) (simp_all add: List.map_filter_simps)
qed

text \<open>
  C1, as the code has it.  After \<open>loadFilterMetadata\<close> the metadata model is what it
  was, followed by the descriptors of the scan that were accepted, in the order of the
  scan.  A descriptor is accepted if and only if the filter registry has its
  \<open>mlt_service\<close>, the engine has the \<open>glaxnimate\<close> producer in case the descriptor's
  object name is \<open>maskGlaxnimate\<close>, and the engine's version, if it gives one, satisfies
  \<open>isMltVersion\<close>; or the descriptor is of link type and the link registry has its
  \<open>mlt_service\<close>.  No other descriptor is added.
\<close>

theorem loaded_iff_accepted:
  "m_metadataModel (loadFilterMetadata repo ops dirs s) =
     m_metadataModel s @
     map (stored repo ops)
       (filter (\<lambda>(d, m).
            filters repo (mlt_service m) \<and>
              (objectName m = ''maskGlaxnimate'' \<longrightarrow> producers repo ''glaxnimate'') \<and>
              (engine_version repo m = [] \<or> isMltVersion ops m (engine_version repo m)) \<or>
            plugin_type m = Link \<and> links repo (mlt_service m))
          (descriptors dirs))"
  unfolding loadFilterMetadata_def
proof (induction dirs arbitrary: s)
  case Nil
  show ?case by (simp add: descriptors_def)
next
  case (Cons d dirs)
  obtain dirName files where d: "d = (dirName, files)" by (cases d)
  show ?case
    unfolding foldl_Cons Cons.IH d
    by (simp add: load_files_model descriptors_def)
qed

theorem loaded_iff_accepted_witness:
  "m_metadataModel (loadFilterMetadata repo0 ops0 scan0 s_fresh) =
     [meta_blur, meta_remap\<lparr>name := ''Time Remap (DEPRECATED)'', path := ''remap''\<rparr>]"
  using loaded_iff_accepted [of repo0 ops0 scan0 s_fresh]
  by (simp add: descriptors_def scan0_def List.map_filter_simps repo0_def ops0_def meta_blur_def
     meta_mask_def meta_gblur_def meta_remap_def stored_def engine_version_def
     mark_deprecated_def added_filter_def added_link_def s_fresh_def FilterController_init_def)

text \<open>
  C1 as stated fails for the Glaxnimate mask.  The filter registry has its service and
  the engine gives no version, so the stated condition holds; the engine has no
  \<open>glaxnimate\<close> producer, and the descriptor is not added.
\<close>

theorem loaded_without_glaxnimate_counterexample:
  "spec_accepts repo0 ops0 meta_mask \<and>
   m_metadataModel
     (loadFilterMetadata repo0 ops0 [(''mask'', [(''meta_glaxnimate.qml'', Some meta_mask)])]
        s_fresh) = []"
  by (simp add: spec_accepts_def loadFilterMetadata_def repo0_def ops0_def meta_mask_def
      engine_version_def s_fresh_def FilterController_init_def)

subsection \<open>Reachable states\<close>

lemma live_adapters_simps [simp]:
  "live_adapters [] = 0"
  "live_adapters (es @ fs) = live_adapters es + live_adapters fs"
  "live_adapters (e # es) = live_change e + live_adapters es"
  by (simp_all add: live_adapters_def)















end
